theory Spec2Isabelle
  imports Main "HOL-Library.Char_ord" "HOL-Library.List_Lexorder" "HOL-Library.Sublist"
begin

section \<open>Compose projects\<close>

text \<open>
  The compose resource works on a \<open>composetypes.Project\<close>. Its \<open>Services\<close> field and
  the \<open>DependsOn\<close> field of every service are Go maps. A Go map is modelled as an
  association list: the keys are the entries' first components, a lookup is
  \<open>map_of\<close>, and the order of the list is the order in which a \<open>range\<close> statement over
  the map yields the entries in the run that is modelled. Go leaves that order
  unspecified, so two runs over the same map are two lists with the same entries.
  The values of \<open>DependsOn\<close> (\<open>ServiceDependency{}\<close>) are never read, so only its keys
  are kept. Of \<open>ServiceConfig\<close> the fields that decide which Engine requests are issued
  are kept; the others only fill in arguments of \<open>ContainerCreate\<close>.
\<close>

record ServiceConfig =
  Name :: string
  Image :: string
  DependsOn :: "string list"

record NetworkConfig =
  net_Driver :: string
  net_External :: bool

record VolumeConfig =
  vol_Driver :: string
  vol_External :: bool

record Project =
  Services :: "(string \<times> ServiceConfig) list"
  Networks :: "(string \<times> NetworkConfig) list"
  Volumes :: "(string \<times> VolumeConfig) list"

text \<open>The zero value Go returns when a map is indexed with a key it does not hold.\<close>

definition zero_ServiceConfig :: ServiceConfig where
  "zero_ServiceConfig = \<lparr>Name = [], Image = [], DependsOn = []\<rparr>"

definition Services_index :: "Project \<Rightarrow> string \<Rightarrow> ServiceConfig" where
  "Services_index project name =
     (case map_of (Services project) name of
        None \<Rightarrow> zero_ServiceConfig
      | Some service \<Rightarrow> service)"

section \<open>getServiceOrder\<close>

text \<open>
  The closure \<open>visit\<close> of \<open>getServiceOrder\<close> mutates the two captured variables
  \<open>visited\<close> and \<open>order\<close>; they are the state that is passed along. \<open>visit_range\<close> is
  the loop \<open>for dep := range service.DependsOn { visit(dep) }\<close>.
\<close>

record visit_state =
  visited :: "string set"
  order :: "string list"

text \<open>Every name the traversal can meet: the services and whatever they depend on.\<close>

definition universe :: "Project \<Rightarrow> string set" where
  "universe project =
     fst ` set (Services project) \<union> (\<Union>(n, svc) \<in> set (Services project). set (DependsOn svc))"

definition visit_measure ::
  "Project \<times> string \<times> visit_state + Project \<times> string list \<times> visit_state \<Rightarrow> nat \<times> nat" where
  "visit_measure a =
     (case a of
        Inl (project, name, s) \<Rightarrow> (card ((universe project \<union> {name}) - visited s), 0)
      | Inr (project, deps, s) \<Rightarrow>
          (card ((universe project \<union> set deps) - visited s), Suc (length deps)))"

function visit :: "Project \<Rightarrow> string \<Rightarrow> visit_state \<Rightarrow> visit_state"
  and visit_range :: "Project \<Rightarrow> string list \<Rightarrow> visit_state \<Rightarrow> visit_state"
where
  "visit project name s =
     (if name \<in> visited s then s
      else
        let s1 = s\<lparr>visited := insert name (visited s)\<rparr>;
            service = Services_index project name;
            s2 = visit_range project (DependsOn service) s1
        in s2\<lparr>order := order s2 @ [name]\<rparr>)"
| "visit_range project [] s = s"
| "visit_range project (dep # deps) s = visit_range project deps (visit project dep s)"
  by pat_completeness auto

lemma finite_universe: "finite (universe project)"
  by (auto simp: universe_def)

lemma deps_in_universe: "set (DependsOn (Services_index project name)) \<subseteq> universe project"
  by (auto simp: Services_index_def universe_def zero_ServiceConfig_def
           split: option.splits dest!: map_of_SomeD)

lemma visit_dom_mono:
  "visit_visit_range_dom (Inl (project, name, s)) \<Longrightarrow> visited s \<subseteq> visited (visit project name s)"
  "visit_visit_range_dom (Inr (project, deps, s)) \<Longrightarrow> visited s \<subseteq> visited (visit_range project deps s)"
proof (induction rule: visit_visit_range.pinduct)
  case (1 project name s)
  then show ?case by (auto simp: visit.psimps Let_def)
next
  case (2 project s)
  then show ?case by (simp add: visit_range.psimps)
next
  case (3 project dep deps s)
  then show ?case by (auto simp: visit_range.psimps)
qed

termination visit
proof (relation "inv_image (less_than <*lex*> less_than) visit_measure")
  show "wf (inv_image (less_than <*lex*> less_than) visit_measure)"
    by (intro wf_inv_image wf_lex_prod wf_less_than)
next
  fix project name and s s1 :: visit_state and service
  assume a: "name \<notin> visited s" "s1 = s\<lparr>visited := insert name (visited s)\<rparr>"
    "service = Services_index project name"
  have "universe project \<union> set (DependsOn service) = universe project"
    using deps_in_universe[of project name] a(3) by auto
  moreover have "universe project - insert name (visited s) \<subset> (universe project \<union> {name}) - visited s"
    using a(1) by auto
  moreover have "finite ((universe project \<union> {name}) - visited s)"
    by (simp add: finite_universe)
  ultimately have "card ((universe project \<union> set (DependsOn service)) - visited s1)
        < card ((universe project \<union> {name}) - visited s)"
    using a(2) by (simp add: psubset_card_mono)
  then show "(Inr (project, DependsOn service, s1), Inl (project, name, s))
        \<in> inv_image (less_than <*lex*> less_than) visit_measure"
    by (simp add: visit_measure_def)
next
  fix project dep deps and s :: visit_state
  have "card ((universe project \<union> {dep}) - visited s) \<le> card ((universe project \<union> set (dep # deps)) - visited s)"
    by (rule card_mono) (auto simp: finite_universe)
  then show "(Inl (project, dep, s), Inr (project, dep # deps, s))
        \<in> inv_image (less_than <*lex*> less_than) visit_measure"
    by (auto simp: visit_measure_def)
next
  fix project dep deps and s :: visit_state
  assume d: "visit_visit_range_dom (Inl (project, dep, s))"
  have "visited s \<subseteq> visited (visit project dep s)" by (rule visit_dom_mono(1)[OF d])
  then have "card ((universe project \<union> set deps) - visited (visit project dep s))
       \<le> card ((universe project \<union> set (dep # deps)) - visited s)"
    by (intro card_mono) (auto simp: finite_universe)
  then show "(Inr (project, deps, visit project dep s), Inr (project, dep # deps, s))
        \<in> inv_image (less_than <*lex*> less_than) visit_measure"
    by (auto simp: visit_measure_def)
qed

definition getServiceOrder :: "Project \<Rightarrow> string list" where
  "getServiceOrder project =
     (let serviceNames = sort (map fst (Services project));
          s = fold (visit project) serviceNames \<lparr>visited = {}, order = []\<rparr>
      in order s)"


declare visit.simps [simp del]


definition gray :: "visit_state \<Rightarrow> string set" where
  "gray s = visited s - set (order s)"

definition wf_state :: "visit_state \<Rightarrow> bool" where
  "wf_state s \<longleftrightarrow> set (order s) \<subseteq> visited s \<and> distinct (order s)"

lemma visit_wf:
  "wf_state s \<Longrightarrow>
     wf_state (visit project name s) \<and> gray (visit project name s) = gray s \<and>
     (\<exists>new. order (visit project name s) = order s @ new) \<and>
     visited s \<subseteq> visited (visit project name s) \<and> name \<in> visited (visit project name s)"
  "wf_state s \<Longrightarrow>
     wf_state (visit_range project deps s) \<and> gray (visit_range project deps s) = gray s \<and>
     (\<exists>new. order (visit_range project deps s) = order s @ new) \<and>
     visited s \<subseteq> visited (visit_range project deps s) \<and> set deps \<subseteq> visited (visit_range project deps s)"
proof (induction project name s and project deps s rule: visit_visit_range.induct)
  case (1 project name s)
  show ?case
  proof (cases "name \<in> visited s")
    case True
    then show ?thesis using 1(2) by (simp add: visit.simps)
  next
    case False
    define s1 where "s1 = s\<lparr>visited := insert name (visited s)\<rparr>"
    define s2 where "s2 = visit_range project (DependsOn (Services_index project name)) s1"
    have w1: "wf_state s1" using 1(2) by (auto simp: s1_def wf_state_def)
    have ih: "wf_state s2 \<and> gray s2 = gray s1 \<and> (\<exists>new. order s2 = order s1 @ new) \<and>
        visited s1 \<subseteq> visited s2 \<and> set (DependsOn (Services_index project name)) \<subseteq> visited s2"
      unfolding s2_def using 1(1)[OF False s1_def refl w1] .
    have res: "visit project name s = s2\<lparr>order := order s2 @ [name]\<rparr>"
      using False by (simp add: visit.simps Let_def s1_def s2_def)
    have nv: "name \<notin> set (order s)" using False 1(2) by (auto simp: wf_state_def)
    have g1: "gray s1 = insert name (gray s)" using nv by (auto simp: gray_def s1_def)
    have ng: "name \<in> gray s2" using ih g1 by simp
    then have n2: "name \<in> visited s2" "name \<notin> set (order s2)" by (auto simp: gray_def)
    have "wf_state (s2\<lparr>order := order s2 @ [name]\<rparr>)"
      using ih n2 by (auto simp: wf_state_def)
    moreover have "gray (s2\<lparr>order := order s2 @ [name]\<rparr>) = gray s"
    proof -
      have "gray (s2\<lparr>order := order s2 @ [name]\<rparr>) = gray s2 - {name}"
        by (auto simp: gray_def)
      also have "\<dots> = gray s" using ih g1 False nv by (auto simp: gray_def)
      finally show ?thesis .
    qed
    moreover have "\<exists>new. order (s2\<lparr>order := order s2 @ [name]\<rparr>) = order s @ new"
      using ih by (auto simp: s1_def)
    moreover have "visited s \<subseteq> visited (s2\<lparr>order := order s2 @ [name]\<rparr>)"
      using ih by (auto simp: s1_def)
    moreover have "name \<in> visited (s2\<lparr>order := order s2 @ [name]\<rparr>)"
      using n2 by simp
    ultimately show ?thesis unfolding res by blast
  qed
next
  case (2 project s)
  then show ?case by simp
next
  case (3 project dep deps s)
  have a: "wf_state (visit project dep s) \<and> gray (visit project dep s) = gray s \<and>
     (\<exists>new. order (visit project dep s) = order s @ new) \<and>
     visited s \<subseteq> visited (visit project dep s) \<and> dep \<in> visited (visit project dep s)"
    using 3(1)[OF 3(3)] .
  then have w: "wf_state (visit project dep s)" by simp
  note b = 3(2)[OF w]
  show ?case using a b by (auto simp del: visit_range.simps(2) simp add: visit_range.simps(2)[of project dep deps s])
qed








lemma fold_visit: "fold (visit project) names s = visit_range project names s"
  by (induction names arbitrary: s) simp_all

lemma wf_state_init: "wf_state \<lparr>visited = {}, order = []\<rparr>"  "gray \<lparr>visited = {}, order = []\<rparr> = {}"
  by (simp_all add: wf_state_def gray_def)

lemma getServiceOrder_distinct: "distinct (getServiceOrder project)"
  using visit_wf(2)[OF wf_state_init(1)]
  by (simp add: getServiceOrder_def fold_visit wf_state_def)

lemma getServiceOrder_set_visited:
  "set (getServiceOrder project) = visited (visit_range project (sort (map fst (Services project))) \<lparr>visited = {}, order = []\<rparr>)"
proof -
  let ?s = "visit_range project (sort (map fst (Services project))) \<lparr>visited = {}, order = []\<rparr>"
  have "wf_state ?s" "gray ?s = {}"
    using visit_wf(2)[OF wf_state_init(1)] wf_state_init(2) by auto
  then have "set (order ?s) = visited ?s" by (auto simp: wf_state_def gray_def)
  then show ?thesis by (simp add: getServiceOrder_def fold_visit)
qed

lemma getServiceOrder_contains: "fst ` set (Services project) \<subseteq> set (getServiceOrder project)"
  using visit_wf(2)[OF wf_state_init(1), of project "sort (map fst (Services project))"]
  unfolding getServiceOrder_set_visited by auto




lemma count_list_distinct: "distinct xs \<Longrightarrow> x \<in> set xs \<Longrightarrow> count_list xs x = 1"
  by (induction xs) auto

subsection \<open>Example projects\<close>

text \<open>
  \<open>project_ghost\<close>: service \<open>web\<close> depends on \<open>db\<close> and on \<open>ghost\<close>, which the project
  does not define. \<open>project_fanout deps\<close>: service \<open>a\<close> depends on \<open>b\<close> and \<open>c\<close>, and
  \<open>deps\<close> is the order in which the run's \<open>range\<close> over \<open>a\<close>'s \<open>DependsOn\<close> yields them.
\<close>

definition project_ghost :: Project where
  "project_ghost =
     \<lparr>Services =
        [(''web'', \<lparr>Name = ''web'', Image = ''nginx'', DependsOn = [''db'', ''ghost'']\<rparr>),
         (''db'', \<lparr>Name = ''db'', Image = ''postgres'', DependsOn = []\<rparr>)],
      Networks = [], Volumes = []\<rparr>"

definition project_fanout :: "string list \<Rightarrow> Project" where
  "project_fanout deps =
     \<lparr>Services =
        [(''a'', \<lparr>Name = ''a'', Image = ''app'', DependsOn = deps\<rparr>),
         (''b'', \<lparr>Name = ''b'', Image = ''redis'', DependsOn = []\<rparr>),
         (''c'', \<lparr>Name = ''c'', Image = ''postgres'', DependsOn = []\<rparr>)],
      Networks = [], Volumes = []\<rparr>"

lemma getServiceOrder_project_ghost: "getServiceOrder project_ghost = [''db'', ''ghost'', ''web'']"
  by code_simp

subsection \<open>Every service exactly once\<close>

text \<open>
  Claim C9. For every compose project, the list returned by \<open>getServiceOrder\<close> holds
  each of the project's service names exactly once: the list has no duplicate, and
  every key of \<open>project.Services\<close> occurs in it once, whether or not every
  \<open>depends_on\<close> entry names a service of the project.
\<close>

theorem getServiceOrder_each_service_once:
  "distinct (getServiceOrder project) \<and>
   (\<forall>name \<in> fst ` set (Services project). count_list (getServiceOrder project) name = 1)"
  using getServiceOrder_distinct[of project] getServiceOrder_contains[of project]
  by (auto simp: count_list_distinct)

theorem getServiceOrder_each_service_once_witness:
  "''web'' \<in> fst ` set (Services project_ghost) \<and>
   ''ghost'' \<in> set (DependsOn (Services_index project_ghost ''web'')) \<and>
   ''ghost'' \<notin> fst ` set (Services project_ghost) \<and>
   distinct (getServiceOrder project_ghost) \<and>
   count_list (getServiceOrder project_ghost) ''web'' = 1"
proof -
  have a: "''web'' \<in> fst ` set (Services project_ghost)"
    by (simp add: project_ghost_def)
  have b: "''ghost'' \<in> set (DependsOn (Services_index project_ghost ''web''))"
    by (simp add: project_ghost_def Services_index_def)
  have c: "''ghost'' \<notin> fst ` set (Services project_ghost)"
    by (simp add: project_ghost_def)
  show ?thesis
    using a b c getServiceOrder_each_service_once[of project_ghost] by blast
qed

text \<open>
  A name that only occurs in a \<open>depends_on\<close> entry is appended as well: indexing
  \<open>project.Services\<close> with it gives the zero \<open>ServiceConfig\<close>, whose \<open>DependsOn\<close> is empty.
\<close>

lemma getServiceOrder_subset_universe: "set (getServiceOrder project) \<subseteq> universe project"
proof -
  have v:
    "visited s \<subseteq> universe project \<Longrightarrow> name \<in> universe project \<Longrightarrow>
       visited (visit project name s) \<subseteq> universe project"
    "visited s \<subseteq> universe project \<Longrightarrow> set deps \<subseteq> universe project \<Longrightarrow>
       visited (visit_range project deps s) \<subseteq> universe project" for s name deps
  proof (induction project name s and project deps s rule: visit_visit_range.induct)
    case (1 project name s)
    show ?case
    proof (cases "name \<in> visited s")
      case True
      then show ?thesis using 1(2) by (simp add: visit.simps)
    next
      case False
      have "visited (visit_range project (DependsOn (Services_index project name))
              (s\<lparr>visited := insert name (visited s)\<rparr>)) \<subseteq> universe project"
        using 1(1)[OF False refl refl] 1(2,3) deps_in_universe[of project name] by simp
      then show ?thesis using False by (simp add: visit.simps Let_def)
    qed
  next
    case (2 project s)
    then show ?case by simp
  next
    case (3 project dep deps s)
    then show ?case by simp
  qed
  have "set (sort (map fst (Services project))) \<subseteq> universe project"
    by (auto simp: universe_def)
  then show ?thesis
    unfolding getServiceOrder_set_visited using v(2)[of "\<lparr>visited = {}, order = []\<rparr>"] by simp
qed

subsection \<open>Dependence on the iteration order of \<open>DependsOn\<close>\<close>

text \<open>
  Claim C2. \<open>getServiceOrder\<close> sorts the service names before the traversal, but inside
  \<open>visit\<close> it ranges over the map \<open>service.DependsOn\<close>, whose iteration order Go does
  not fix. For the project in which \<open>a\<close> depends on \<open>b\<close> and \<open>c\<close>, a run whose range
  yields \<open>b\<close> first returns \<open>[b, c, a]\<close> and a run whose range yields \<open>c\<close> first returns
  \<open>[c, b, a]\<close>: the same services and the same \<open>depends_on\<close> sets, two different lists.
\<close>

theorem getServiceOrder_follows_range_order:
  "set [''b'', ''c''] = set [''c'', ''b''] \<and>
   map fst (Services (project_fanout [''b'', ''c''])) = map fst (Services (project_fanout [''c'', ''b''])) \<and>
   getServiceOrder (project_fanout [''b'', ''c'']) = [''b'', ''c'', ''a''] \<and>
   getServiceOrder (project_fanout [''c'', ''b'']) = [''c'', ''b'', ''a'']"
proof -
  have 1: "set [''b'', ''c''] = set [''c'', ''b'']" by auto
  have 2: "map fst (Services (project_fanout [''b'', ''c''])) = map fst (Services (project_fanout [''c'', ''b'']))"
    by (simp add: project_fanout_def)
  have 3: "getServiceOrder (project_fanout [''b'', ''c'']) = [''b'', ''c'', ''a'']" by code_simp
  have 4: "getServiceOrder (project_fanout [''c'', ''b'']) = [''c'', ''b'', ''a'']" by code_simp
  show ?thesis using 1 2 3 4 by blast
qed

section \<open>Terraform plugin framework values\<close>

text \<open>
  An attribute value of the framework (\<open>types.String\<close>, \<open>types.Bool\<close>, \<open>types.Int64\<close>,
  \<open>types.List\<close>) is null, unknown or known. \<open>ValueString\<close> and \<open>ValueBool\<close> return the
  zero value for a value that is not known.
\<close>

datatype 'a tfvalue = Null | Unknown | Known 'a

fun IsNull :: "'a tfvalue \<Rightarrow> bool" where
  "IsNull Null = True"
| "IsNull _ = False"

fun ValueString :: "string tfvalue \<Rightarrow> string" where
  "ValueString (Known s) = s"
| "ValueString _ = []"

fun ValueBool :: "bool tfvalue \<Rightarrow> bool" where
  "ValueBool (Known b) = b"
| "ValueBool _ = False"

datatype severity = SeverityError | SeverityWarning

record diagnostic =
  Severity :: severity
  Summary :: string
  Detail :: string

type_synonym Diagnostics = "diagnostic list"

definition HasError :: "Diagnostics \<Rightarrow> bool" where
  "HasError diags = list_ex (\<lambda>d. Severity d = SeverityError) diags"

text \<open>\<open>Diagnostics.Append\<close> skips a diagnostic that the collection already contains.\<close>

fun Append :: "Diagnostics \<Rightarrow> Diagnostics \<Rightarrow> Diagnostics" where
  "Append diags [] = diags"
| "Append diags (d # ds) = Append (if d \<in> set diags then diags else diags @ [d]) ds"

definition AddError :: "string \<Rightarrow> string \<Rightarrow> Diagnostics \<Rightarrow> Diagnostics" where
  "AddError summary detail diags =
     Append diags [\<lparr>Severity = SeverityError, Summary = summary, Detail = detail\<rparr>]"

definition AddWarning :: "string \<Rightarrow> string \<Rightarrow> Diagnostics \<Rightarrow> Diagnostics" where
  "AddWarning summary detail diags =
     Append diags [\<lparr>Severity = SeverityWarning, Summary = summary, Detail = detail\<rparr>]"

section \<open>The Docker Engine, as the provider sees it\<close>

text \<open>
  The Engine is not part of the provider: it is a parameter. An \<open>engine\<close> answers one
  request in a world \<open>'w\<close> (whatever the daemon's state is) and returns the response and
  the next world. A \<open>run\<close> holds the world and the exchanges so far, in order: each
  request with the response it got. Of each request the arguments the provider chooses
  and that identify its target are kept.
\<close>

type_synonym labels = "(string \<times> string) list"
type_synonym filters = "(string \<times> string) list"

record container_Summary =
  cs_ID :: string
  cs_Labels :: labels

record network_Summary =
  ns_ID :: string
  ns_Labels :: labels

record volume_Volume =
  vv_Name :: string
  vv_Labels :: labels

record network_Inspect =
  ni_Name :: string
  ni_Driver :: string
  ni_Internal :: bool
  ni_Attachable :: bool
  ni_Ingress :: bool
  ni_Scope :: string
  ni_EnableIPv6 :: bool
  ni_Labels :: labels
  ni_Options :: labels

record image_Inspect =
  ii_ID :: string
  ii_RepoDigests :: "string list"

datatype request =
    NetworkInspect string
  | NetworkCreate string string labels
  | NetworkList filters
  | NetworkRemove string
  | VolumeInspect string
  | VolumeCreate string string labels
  | VolumeList filters
  | VolumeRemove string bool
  | ContainerInspect string
  | ContainerCreate string string labels
  | ContainerStart string
  | ContainerList bool filters
  | ContainerStop string int
  | ContainerRemove string bool
  | ImageInspectWithRaw string

datatype response =
    Err string
  | Ok
  | OkID string
  | OkContainers "container_Summary list"
  | OkNetworks "network_Summary list"
  | OkVolumes "volume_Volume list"
  | OkNetwork network_Inspect
  | OkImage image_Inspect

type_synonym 'w engine = "request \<Rightarrow> 'w \<Rightarrow> response \<times> 'w"

record 'w run =
  world :: 'w
  trace :: "(request \<times> response) list"

definition call :: "'w engine \<Rightarrow> request \<Rightarrow> 'w run \<Rightarrow> response \<times> 'w run" where
  "call eng req r =
     (case eng req (world r) of
        (resp, w) \<Rightarrow> (resp, \<lparr>world = w, trace = trace r @ [(req, resp)]\<rparr>))"

text \<open>
  What the SDK hands back to Go: the error (\<open>nil\<close> unless the response is \<open>Err\<close>) and the
  result, which is the zero value when the response carries none.
\<close>

fun err_of :: "response \<Rightarrow> string option" where
  "err_of (Err e) = Some e"
| "err_of _ = None"

fun id_of :: "response \<Rightarrow> string" where
  "id_of (OkID i) = i"
| "id_of _ = []"

fun containers_of :: "response \<Rightarrow> container_Summary list" where
  "containers_of (OkContainers cs) = cs"
| "containers_of _ = []"



section \<open>The compose resource\<close>

record ComposeResourceModel =
  ID :: "string tfvalue"
  ProjectName :: "string tfvalue"
  ComposeFile :: "string tfvalue"
  ComposeContent :: "string tfvalue"
  RemoveOrphans :: "bool tfvalue"
  RemoveVolumes :: "bool tfvalue"
  ForceRecreate :: "bool tfvalue"
  ContentHash :: "string tfvalue"
  Services_attr :: "string list tfvalue"
  RunningServices :: "int tfvalue"

text \<open>
  What lies outside the provider and the Engine: the file system (\<open>os.ReadFile\<close>), the
  YAML library together with the conversion of the raw document into a \<open>Project\<close>
  (\<open>yaml.Unmarshal\<close>, \<open>parseService\<close>, \<open>parseNetwork\<close>, \<open>parseVolume\<close>; its argument are the
  project name and the content), and SHA-256 printed in hexadecimal. Errors are their
  messages.
\<close>

record compose_env =
  ReadFile :: "string \<Rightarrow> string + string"
  yaml_project :: "string \<Rightarrow> string \<Rightarrow> string + Project"
  sha256_hex :: "string \<Rightarrow> string"

text \<open>
  A request of the framework is given by what \<open>req.Plan.Get\<close> or \<open>req.State.Get\<close> yields:
  the diagnostics and the decoded model. A response holds the diagnostics and the
  state: \<open>None\<close> is the null state (no resource), \<open>State.Set\<close> stores a model and
  reports no diagnostic for a model of the schema's own type.
\<close>

record Request =
  Get :: "Diagnostics \<times> ComposeResourceModel"

record Response =
  Diagnostics :: Diagnostics
  State :: "ComposeResourceModel option"

definition parseComposeFile :: "compose_env \<Rightarrow> ComposeResourceModel \<Rightarrow> string + Project" where
  "parseComposeFile env data =
     (if \<not> IsNull (ComposeFile data) then
        (case ReadFile env (ValueString (ComposeFile data)) of
           Inl err \<Rightarrow> Inl (''failed to read compose file: '' @ err)
         | Inr content \<Rightarrow> yaml_project env (ValueString (ProjectName data)) content)
      else if \<not> IsNull (ComposeContent data) then
        yaml_project env (ValueString (ProjectName data)) (ValueString (ComposeContent data))
      else Inl ''no compose file or content specified'')"

definition calculateContentHash :: "compose_env \<Rightarrow> ComposeResourceModel \<Rightarrow> string" where
  "calculateContentHash env data =
     (let content =
        (if \<not> IsNull (ComposeFile data) then
           (case ReadFile env (ValueString (ComposeFile data)) of
              Inl err \<Rightarrow> []
            | Inr bytes \<Rightarrow> bytes)
         else if \<not> IsNull (ComposeContent data) then ValueString (ComposeContent data)
         else [])
      in sha256_hex env content)"

definition project_label :: "string \<Rightarrow> string \<times> string" where
  "project_label projectName = (''label'', ''com.docker.compose.project='' @ projectName)"

definition createNetwork ::
  "'w engine \<Rightarrow> string \<Rightarrow> string \<Rightarrow> NetworkConfig \<Rightarrow> 'w run \<Rightarrow> string option \<times> 'w run" where
  "createNetwork eng projectName name config r =
     (if net_External config then (None, r)
      else
        let networkName = projectName @ ''_'' @ name;
            (resp, r1) = call eng (NetworkInspect networkName) r
        in if err_of resp = None then (None, r1)
           else
             let driver = (if net_Driver config = [] then ''bridge'' else net_Driver config);
                 (resp2, r2) =
                   call eng
                     (NetworkCreate networkName driver
                        [(''com.docker.compose.project'', projectName),
                         (''com.docker.compose.network'', name)]) r1
             in (err_of resp2, r2))"

definition createVolume ::
  "'w engine \<Rightarrow> string \<Rightarrow> string \<Rightarrow> VolumeConfig \<Rightarrow> 'w run \<Rightarrow> string option \<times> 'w run" where
  "createVolume eng projectName name config r =
     (if vol_External config then (None, r)
      else
        let volumeName = projectName @ ''_'' @ name;
            (resp, r1) = call eng (VolumeInspect volumeName) r
        in if err_of resp = None then (None, r1)
           else
             let driver = (if vol_Driver config = [] then ''local'' else vol_Driver config);
                 (resp2, r2) =
                   call eng
                     (VolumeCreate volumeName driver
                        [(''com.docker.compose.project'', projectName),
                         (''com.docker.compose.volume'', name)]) r1
             in (err_of resp2, r2))"

definition containerName :: "string \<Rightarrow> string \<Rightarrow> string" where
  "containerName projectName serviceName = projectName @ ''-'' @ serviceName @ ''-1''"

definition createService ::
  "'w engine \<Rightarrow> string \<Rightarrow> string \<Rightarrow> ServiceConfig \<Rightarrow> 'w run \<Rightarrow> string option \<times> 'w run" where
  "createService eng projectName serviceName service r =
     (let (resp, r1) = call eng (ContainerInspect (containerName projectName serviceName)) r
      in if err_of resp = None then
           (let (resp2, r2) = call eng (ContainerStart (containerName projectName serviceName)) r1
            in (err_of resp2, r2))
         else
           let (resp3, r3) =
                 call eng
                   (ContainerCreate (containerName projectName serviceName) (Image service)
                      [(''com.docker.compose.project'', projectName),
                       (''com.docker.compose.service'', serviceName)]) r1
           in (case err_of resp3 of
                 Some err \<Rightarrow> (Some (''failed to create container: '' @ err), r3)
               | None \<Rightarrow>
                   (let (resp4, r4) = call eng (ContainerStart (id_of resp3)) r3
                    in (case err_of resp4 of
                          Some err \<Rightarrow> (Some (''failed to start container: '' @ err), r4)
                        | None \<Rightarrow> (None, r4)))))"

text \<open>
  The three loops of \<open>Create\<close>. Each returns at the first failure, with the name it
  failed at and the error.
\<close>

fun create_networks ::
  "'w engine \<Rightarrow> string \<Rightarrow> (string \<times> NetworkConfig) list \<Rightarrow> 'w run \<Rightarrow>
   (string \<times> string) option \<times> 'w run" where
  "create_networks eng projectName [] r = (None, r)"
| "create_networks eng projectName ((name, netConfig) # rest) r =
     (case createNetwork eng projectName name netConfig r of
        (Some err, r1) \<Rightarrow> (Some (name, err), r1)
      | (None, r1) \<Rightarrow> create_networks eng projectName rest r1)"

fun create_volumes ::
  "'w engine \<Rightarrow> string \<Rightarrow> (string \<times> VolumeConfig) list \<Rightarrow> 'w run \<Rightarrow>
   (string \<times> string) option \<times> 'w run" where
  "create_volumes eng projectName [] r = (None, r)"
| "create_volumes eng projectName ((name, volConfig) # rest) r =
     (case createVolume eng projectName name volConfig r of
        (Some err, r1) \<Rightarrow> (Some (name, err), r1)
      | (None, r1) \<Rightarrow> create_volumes eng projectName rest r1)"

fun create_services ::
  "'w engine \<Rightarrow> string \<Rightarrow> Project \<Rightarrow> string list \<Rightarrow> 'w run \<Rightarrow>
   (string \<times> string) option \<times> 'w run" where
  "create_services eng projectName project [] r = (None, r)"
| "create_services eng projectName project (serviceName # rest) r =
     (case createService eng projectName serviceName (Services_index project serviceName) r of
        (Some err, r1) \<Rightarrow> (Some (serviceName, err), r1)
      | (None, r1) \<Rightarrow> create_services eng projectName project rest r1)"

definition refreshStackInfo ::
  "'w engine \<Rightarrow> ComposeResourceModel \<Rightarrow> Project option \<Rightarrow> 'w run \<Rightarrow>
   ComposeResourceModel \<times> 'w run" where
  "refreshStackInfo eng data project r =
     (let projectName = ValueString (ProjectName data);
          (resp, r1) =
            call eng (ContainerList False [project_label projectName, (''status'', ''running'')]) r;
          data1 =
            (if err_of resp = None
             then data\<lparr>RunningServices := Known (int (length (containers_of resp)))\<rparr>
             else data);
          data2 =
            (case project of
               None \<Rightarrow> data1
             | Some p \<Rightarrow> data1\<lparr>Services_attr := Known (sort (map fst (Services p)))\<rparr>)
      in (data2, r1))"

definition Create ::
  "'w engine \<Rightarrow> compose_env \<Rightarrow> Request \<Rightarrow> Response \<Rightarrow> 'w run \<Rightarrow> Response \<times> 'w run" where
  "Create eng env req resp r =
     (let (diags, data) = Get req;
          resp1 = resp\<lparr>Diagnostics := Append (Diagnostics resp) diags\<rparr>
      in if HasError (Diagnostics resp1) then (resp1, r)
         else if IsNull (ComposeFile data) \<and> IsNull (ComposeContent data) then
           (resp1\<lparr>Diagnostics :=
              AddError ''Missing Compose Configuration''
                ''Either compose_file or compose_content must be specified.''
                (Diagnostics resp1)\<rparr>, r)
         else
           (let projectName = ValueString (ProjectName data)
            in (case parseComposeFile env data of
                  Inl err \<Rightarrow>
                    (resp1\<lparr>Diagnostics :=
                       AddError ''Compose Parse Error'' (''Failed to parse compose file: '' @ err)
                         (Diagnostics resp1)\<rparr>, r)
                | Inr project \<Rightarrow>
                    (let data1 = data\<lparr>ContentHash := Known (calculateContentHash env data)\<rparr>
                     in (case create_networks eng projectName (Networks project) r of
                           (Some (name, err), r1) \<Rightarrow>
                             (resp1\<lparr>Diagnostics :=
                                AddError ''Network Create Error''
                                  (''Failed to create network '' @ name @ '': '' @ err)
                                  (Diagnostics resp1)\<rparr>, r1)
                         | (None, r1) \<Rightarrow>
                             (case create_volumes eng projectName (Volumes project) r1 of
                                (Some (name, err), r2) \<Rightarrow>
                                  (resp1\<lparr>Diagnostics :=
                                     AddError ''Volume Create Error''
                                       (''Failed to create volume '' @ name @ '': '' @ err)
                                       (Diagnostics resp1)\<rparr>, r2)
                              | (None, r2) \<Rightarrow>
                                  (case create_services eng projectName project
                                          (getServiceOrder project) r2 of
                                     (Some (serviceName, err), r3) \<Rightarrow>
                                       (resp1\<lparr>Diagnostics :=
                                          AddError ''Service Create Error''
                                            (''Failed to create service '' @ serviceName @ '': '' @ err)
                                            (Diagnostics resp1)\<rparr>, r3)
                                   | (None, r3) \<Rightarrow>
                                       (let data2 = data1\<lparr>ID := Known projectName\<rparr>;
                                            (data3, r4) =
                                              refreshStackInfo eng data2 (Some project) r3
                                        in (resp1\<lparr>State := Some data3\<rparr>, r4)))))))))"







section \<open>Diagnostics\<close>

lemma set_Append: "set (Append diags ds) = set diags \<union> set ds"
  by (induction ds arbitrary: diags) auto

lemma Append_prefix: "\<exists>new. Append diags ds = diags @ new \<and> set new \<subseteq> set ds"
proof (induction ds arbitrary: diags)
  case Nil
  then show ?case by simp
next
  case (Cons d ds)
  obtain new where n: "Append (if d \<in> set diags then diags else diags @ [d]) ds =
      (if d \<in> set diags then diags else diags @ [d]) @ new" "set new \<subseteq> set ds"
    using Cons.IH by blast
  show ?case
  proof (cases "d \<in> set diags")
    case True
    then show ?thesis using n by (intro exI[of _ new]) auto
  next
    case False
    then show ?thesis using n by (intro exI[of _ "d # new"]) auto
  qed
qed

lemma HasError_iff: "HasError diags \<longleftrightarrow> (\<exists>d \<in> set diags. Severity d = SeverityError)"
  by (simp add: HasError_def list_ex_iff)


lemma AddError_mem:
  "\<lparr>Severity = SeverityError, Summary = summary, Detail = detail\<rparr> \<in> set (AddError summary detail diags)"
  by (simp add: AddError_def set_Append)

lemma HasError_AddWarning: "HasError (AddWarning summary detail diags) = HasError diags"
  by (simp add: HasError_iff AddWarning_def set_Append)

lemma AddWarning_mem:
  "\<lparr>Severity = SeverityWarning, Summary = summary, Detail = detail\<rparr> \<in> set (AddWarning summary detail diags)"
  by (simp add: AddWarning_def set_Append)

section \<open>An example Engine\<close>

text \<open>
  A small Engine to run the provider against: it keeps containers, networks and volumes
  with their labels, names a container it creates after the requested name, applies
  \<open>label\<close> filters to list requests, and fails exactly the requests in \<open>tw_failing\<close>.
\<close>

record toy_world =
  tw_containers :: "container_Summary list"
  tw_networks :: "network_Summary list"
  tw_volumes :: "volume_Volume list"
  tw_failing :: "request list"

definition matches :: "filters \<Rightarrow> labels \<Rightarrow> bool" where
  "matches fs ls =
     list_all (\<lambda>(k, f). if k = ''label'' then f \<in> set (map (\<lambda>(lk, lv). lk @ ''='' @ lv) ls) else True) fs"

fun toy_answer :: "request \<Rightarrow> toy_world \<Rightarrow> response \<times> toy_world" where
  "toy_answer (ContainerList all fs) w =
     (OkContainers (filter (\<lambda>c. matches fs (cs_Labels c)) (tw_containers w)), w)"
| "toy_answer (ContainerInspect name) w =
     (if name \<in> set (map cs_ID (tw_containers w)) then Ok
      else Err (''No such container: '' @ name), w)"
| "toy_answer (ContainerCreate name img ls) w =
     (OkID name, w\<lparr>tw_containers := tw_containers w @ [\<lparr>cs_ID = name, cs_Labels = ls\<rparr>]\<rparr>)"
| "toy_answer (ContainerStart i) w = (Ok, w)"
| "toy_answer (ContainerStop i t) w = (Ok, w)"
| "toy_answer (ContainerRemove i force) w =
     (Ok, w\<lparr>tw_containers := filter (\<lambda>c. cs_ID c \<noteq> i) (tw_containers w)\<rparr>)"
| "toy_answer (NetworkList fs) w =
     (OkNetworks (filter (\<lambda>n. matches fs (ns_Labels n)) (tw_networks w)), w)"
| "toy_answer (NetworkInspect name) w =
     (if name \<in> set (map ns_ID (tw_networks w)) then Ok
      else Err (''network '' @ name @ '' not found''), w)"
| "toy_answer (NetworkCreate name driver ls) w =
     (OkID name, w\<lparr>tw_networks := tw_networks w @ [\<lparr>ns_ID = name, ns_Labels = ls\<rparr>]\<rparr>)"
| "toy_answer (NetworkRemove i) w =
     (Ok, w\<lparr>tw_networks := filter (\<lambda>n. ns_ID n \<noteq> i) (tw_networks w)\<rparr>)"
| "toy_answer (VolumeList fs) w =
     (OkVolumes (filter (\<lambda>v. matches fs (vv_Labels v)) (tw_volumes w)), w)"
| "toy_answer (VolumeInspect name) w =
     (if name \<in> set (map vv_Name (tw_volumes w)) then Ok
      else Err (''no such volume: '' @ name), w)"
| "toy_answer (VolumeCreate name driver ls) w =
     (Ok, w\<lparr>tw_volumes := tw_volumes w @ [\<lparr>vv_Name = name, vv_Labels = ls\<rparr>]\<rparr>)"
| "toy_answer (VolumeRemove name force) w =
     (Ok, w\<lparr>tw_volumes := filter (\<lambda>v. vv_Name v \<noteq> name) (tw_volumes w)\<rparr>)"
| "toy_answer (ImageInspectWithRaw name) w = (Err (''No such image: '' @ name), w)"

definition toy_engine :: "toy_world engine" where
  "toy_engine req w =
     (if req \<in> set (tw_failing w) then (Err ''daemon unavailable'', w) else toy_answer req w)"

definition empty_world :: toy_world where
  "empty_world = \<lparr>tw_containers = [], tw_networks = [], tw_volumes = [], tw_failing = []\<rparr>"

text \<open>An environment in which every inline compose document is read as the given project.\<close>

definition toy_env :: "Project \<Rightarrow> compose_env" where
  "toy_env project =
     \<lparr>ReadFile = (\<lambda>path. Inl (''open '' @ path @ '': no such file or directory'')),
      yaml_project = (\<lambda>projectName content. Inr project),
      sha256_hex = (\<lambda>content. ''e3b0c442'')\<rparr>"

definition demo_model :: ComposeResourceModel where
  "demo_model =
     \<lparr>ID = Unknown, ProjectName = Known ''demo'', ComposeFile = Null,
      ComposeContent = Known ''services: {}'', RemoveOrphans = Known True,
      RemoveVolumes = Known False, ForceRecreate = Known False, ContentHash = Unknown,
      Services_attr = Unknown, RunningServices = Unknown\<rparr>"

definition empty_response :: Response where
  "empty_response = \<lparr>Diagnostics = [], State = None\<rparr>"

definition start_run :: "toy_world \<Rightarrow> toy_world run" where
  "start_run w = \<lparr>world = w, trace = []\<rparr>"

section \<open>Create without a compose configuration\<close>

text \<open>
  Claim C8. If \<open>compose_file\<close> and \<open>compose_content\<close> are both null, \<open>Create\<close> returns
  with the run as it was (no request to the Engine) and the state as it was, and the
  diagnostics hold an error. When the plan was decoded without an error, that error is
  the `Missing Compose Configuration' diagnostic, appended last.
\<close>

theorem Create_missing_compose_configuration:
  assumes "IsNull (ComposeFile (snd (Get req)))" and "IsNull (ComposeContent (snd (Get req)))"
  shows "snd (Create eng env req resp r) = r \<and>
    State (fst (Create eng env req resp r)) = State resp \<and>
    HasError (Diagnostics (fst (Create eng env req resp r))) \<and>
    (\<not> HasError (Append (Diagnostics resp) (fst (Get req))) \<longrightarrow>
       Diagnostics (fst (Create eng env req resp r)) =
         Append (Diagnostics resp) (fst (Get req)) @
           [\<lparr>Severity = SeverityError, Summary = ''Missing Compose Configuration'',
             Detail = ''Either compose_file or compose_content must be specified.''\<rparr>])"
proof -
  obtain diags data where g: "Get req = (diags, data)" by (cases "Get req")
  let ?d = "\<lparr>Severity = SeverityError, Summary = ''Missing Compose Configuration'',
             Detail = ''Either compose_file or compose_content must be specified.''\<rparr>"
  have n: "IsNull (ComposeFile data)" "IsNull (ComposeContent data)" using assms g by simp_all
  show ?thesis
  proof (cases "HasError (Append (Diagnostics resp) diags)")
    case True
    then show ?thesis using g by (simp add: Create_def)
  next
    case False
    then have "?d \<notin> set (Append (Diagnostics resp) diags)"
      by (auto simp: HasError_iff)
    then have a: "AddError ''Missing Compose Configuration''
        ''Either compose_file or compose_content must be specified.''
        (Append (Diagnostics resp) diags) = Append (Diagnostics resp) diags @ [?d]"
      by (simp add: AddError_def)
    have c: "Create eng env req resp r =
        (resp\<lparr>Diagnostics := Append (Diagnostics resp) diags @ [?d]\<rparr>, r)"
      using g n False a by (simp add: Create_def)
    have "HasError (Append (Diagnostics resp) diags @ [?d])"
      by (simp add: HasError_iff)
    then show ?thesis using c g by simp
  qed
qed

theorem Create_missing_compose_configuration_witness:
  "IsNull (ComposeFile (snd (Get \<lparr>Get = ([], demo_model\<lparr>ComposeContent := Null\<rparr>)\<rparr>))) \<and>
   IsNull (ComposeContent (snd (Get \<lparr>Get = ([], demo_model\<lparr>ComposeContent := Null\<rparr>)\<rparr>))) \<and>
   snd (Create toy_engine (toy_env project_ghost) \<lparr>Get = ([], demo_model\<lparr>ComposeContent := Null\<rparr>)\<rparr>
       empty_response (start_run empty_world)) = start_run empty_world \<and>
   State (fst (Create toy_engine (toy_env project_ghost) \<lparr>Get = ([], demo_model\<lparr>ComposeContent := Null\<rparr>)\<rparr>
       empty_response (start_run empty_world))) = None \<and>
   Diagnostics (fst (Create toy_engine (toy_env project_ghost) \<lparr>Get = ([], demo_model\<lparr>ComposeContent := Null\<rparr>)\<rparr>
       empty_response (start_run empty_world))) =
     [\<lparr>Severity = SeverityError, Summary = ''Missing Compose Configuration'',
       Detail = ''Either compose_file or compose_content must be specified.''\<rparr>]"
proof -
  let ?req = "\<lparr>Get = ([], demo_model\<lparr>ComposeContent := Null\<rparr>)\<rparr>"
  have 1: "IsNull (ComposeFile (snd (Get ?req)))" by (simp add: demo_model_def)
  have 2: "IsNull (ComposeContent (snd (Get ?req)))" by (simp add: demo_model_def)
  have 3: "Append (Diagnostics empty_response) (fst (Get ?req)) = []"
    by (simp add: empty_response_def)
  have 4: "\<not> HasError []" by (simp add: HasError_def)
  have 5: "State empty_response = None" by (simp add: empty_response_def)
  note t = Create_missing_compose_configuration[OF 1 2, of toy_engine "toy_env project_ghost"
      empty_response "start_run empty_world"]
  show ?thesis using t 1 2 4 unfolding 3 5 by simp
qed

section \<open>What a run asked the Engine\<close>














section \<open>Create: the requests it sends\<close>






section \<open>Create follows the dependency order\<close>





section \<open>Delete: what is stopped and removed\<close>













subsection \<open>Example worlds\<close>




subsection \<open>The claim\<close>




section \<open>The service resource: waiting for convergence\<close>

text \<open>
  \<open>swarm.UpdateState\<close> is a string type. Of \<open>swarm.Service\<close> only \<open>UpdateStatus\<close> is read
  (\<open>None\<close> is the nil pointer).
\<close>

definition UpdateStateCompleted :: string where
  "UpdateStateCompleted = ''completed''"

definition UpdateStatePaused :: string where
  "UpdateStatePaused = ''paused''"

record swarm_UpdateStatus =
  us_State :: string
  us_Message :: string

record swarm_Service =
  UpdateStatus :: "swarm_UpdateStatus option"

record ConvergeConfigModel =
  Delay :: "string tfvalue"
  Timeout :: "string tfvalue"

text \<open>
  What the loop meets outside the provider, over a world \<open>'w\<close>: the clock
  (\<open>time.Now\<close>, in nanoseconds), \<open>time.Sleep\<close>, the Engine's answer to
  \<open>ServiceInspectWithRaw\<close>, and \<open>time.ParseDuration\<close>. A run records, in order, every
  reading of the clock, what every poll returned and every sleep with its duration.
\<close>

record 'w service_env =
  Now :: "'w \<Rightarrow> int"
  Sleep :: "int \<Rightarrow> 'w \<Rightarrow> 'w"
  ServiceInspectWithRaw :: "string \<Rightarrow> 'w \<Rightarrow> (string + swarm_Service) \<times> 'w"
  ParseDuration :: "string \<Rightarrow> string + int"

datatype wait_event = Clock int | Inspected "string + swarm_Service" | Slept int

record 'w wait_run =
  w_world :: 'w
  w_events :: "wait_event list"

definition now :: "'w service_env \<Rightarrow> 'w wait_run \<Rightarrow> int \<times> 'w wait_run" where
  "now env r = (Now env (w_world r), r\<lparr>w_events := w_events r @ [Clock (Now env (w_world r))]\<rparr>)"

definition inspect :: "'w service_env \<Rightarrow> string \<Rightarrow> 'w wait_run \<Rightarrow> (string + swarm_Service) \<times> 'w wait_run" where
  "inspect env serviceID r =
     (case ServiceInspectWithRaw env serviceID (w_world r) of
        (res, w) \<Rightarrow> (res, \<lparr>w_world = w, w_events = w_events r @ [Inspected res]\<rparr>))"

definition sleep :: "'w service_env \<Rightarrow> int \<Rightarrow> 'w wait_run \<Rightarrow> 'w wait_run" where
  "sleep env d r = \<lparr>w_world = Sleep env d (w_world r), w_events = w_events r @ [Slept d]\<rparr>"

text \<open>\<open>d, _ := time.ParseDuration(s)\<close>: the error is dropped, and \<open>d\<close> is 0 with it.\<close>

definition duration_of :: "'w service_env \<Rightarrow> string \<Rightarrow> int" where
  "duration_of env s = (case ParseDuration env s of Inl err \<Rightarrow> 0 | Inr d \<Rightarrow> d)"

text \<open>
  The loop \<open>for time.Now().Before(deadline) { ... }\<close>: the guard reads the clock before
  every round. Nothing in the code bounds the number of its rounds, so it is a partial
  function: \<open>None\<close> is the loop that never ends.
\<close>

partial_function (option) wait_loop ::
  "'w service_env \<Rightarrow> string \<Rightarrow> int \<Rightarrow> int \<Rightarrow> Diagnostics \<Rightarrow> 'w wait_run \<Rightarrow>
   (Diagnostics \<times> 'w wait_run) option" where
  "wait_loop env serviceID delay deadline diagnostics r =
     (case now env r of
        (t, r0) \<Rightarrow>
          if t < deadline then
            (case inspect env serviceID r0 of
               (Inl err, r1) \<Rightarrow> wait_loop env serviceID delay deadline diagnostics (sleep env delay r1)
             | (Inr service, r1) \<Rightarrow>
                 (case UpdateStatus service of
                    None \<Rightarrow> Some (diagnostics, r1)
                  | Some status \<Rightarrow>
                      if us_State status = UpdateStateCompleted then Some (diagnostics, r1)
                      else if us_State status = UpdateStatePaused then
                        Some (AddWarning ''Service Update Paused''
                                (''Service '' @ serviceID @ '' update is paused: '' @ us_Message status)
                                diagnostics, r1)
                      else wait_loop env serviceID delay deadline diagnostics (sleep env delay r1)))
          else
            Some (AddWarning ''Service Convergence Timeout''
                    (''Service '' @ serviceID @ '' did not converge within the timeout period'')
                    diagnostics, r0))"

declare wait_loop.simps [code]

definition waitForConvergence ::
  "'w service_env \<Rightarrow> string \<Rightarrow> Diagnostics \<times> ConvergeConfigModel list \<Rightarrow> Diagnostics \<Rightarrow>
   'w wait_run \<Rightarrow> (Diagnostics \<times> 'w wait_run) option" where
  "waitForConvergence env serviceID convergeConfig diagnostics r =
     (let (diags, configs) = convergeConfig;
          diagnostics1 = Append diagnostics diags
      in if HasError diagnostics1 \<or> length configs = 0 then Some (diagnostics1, r)
         else
           let delay = duration_of env (ValueString (Delay (configs ! 0)));
               timeout = duration_of env (ValueString (Timeout (configs ! 0)));
               (t0, r0) = now env r;
               deadline = t0 + timeout
           in wait_loop env serviceID delay deadline diagnostics1 r0)"















lemma waitForConvergence_not_entered:
  assumes "HasError (Append diagnostics (fst convergeConfig)) \<or> snd convergeConfig = []"
  shows "waitForConvergence env serviceID convergeConfig diagnostics r =
     Some (Append diagnostics (fst convergeConfig), r)"
  using assms by (cases convergeConfig) (auto simp: waitForConvergence_def Let_def)


subsection \<open>An example clock and service\<close>

text \<open>
  A world with a clock and a poll counter: a sleep advances the clock by its duration,
  a poll takes a millisecond and returns what \<open>answers\<close> gives for its number.
\<close>

record clock_world =
  cw_now :: int
  cw_polls :: nat

definition toy_service_env :: "(nat \<Rightarrow> string + swarm_Service) \<Rightarrow> clock_world service_env" where
  "toy_service_env answers =
     \<lparr>Now = cw_now,
      Sleep = (\<lambda>d w. w\<lparr>cw_now := cw_now w + max d 0\<rparr>),
      ServiceInspectWithRaw =
        (\<lambda>serviceID w. (answers (cw_polls w),
                          w\<lparr>cw_now := cw_now w + 1000000, cw_polls := Suc (cw_polls w)\<rparr>)),
      ParseDuration =
        (\<lambda>s. if s = ''7s'' then Inr 7000000000
              else if s = ''20s'' then Inr 20000000000
              else Inl (''time: invalid duration '' @ s))\<rparr>"

definition updating :: "string + swarm_Service" where
  "updating = Inr \<lparr>UpdateStatus = Some \<lparr>us_State = ''updating'', us_Message = ''update in progress''\<rparr>\<rparr>"

definition completed :: "string + swarm_Service" where
  "completed = Inr \<lparr>UpdateStatus = Some \<lparr>us_State = ''completed'', us_Message = ''update completed''\<rparr>\<rparr>"

definition converge_7s_20s :: "Diagnostics \<times> ConvergeConfigModel list" where
  "converge_7s_20s = ([], [\<lparr>Delay = Known ''7s'', Timeout = Known ''20s''\<rparr>])"

definition wait_start :: "clock_world wait_run" where
  "wait_start = \<lparr>w_world = \<lparr>cw_now = 0, cw_polls = 0\<rparr>, w_events = []\<rparr>"

lemma waitForConvergence_converges_example:
  "waitForConvergence (toy_service_env (\<lambda>k. if k < 2 then updating else completed)) ''svc1''
      converge_7s_20s [] wait_start =
   Some ([], \<lparr>w_world = \<lparr>cw_now = 14003000000, cw_polls = 3\<rparr>,
              w_events = [Clock 0,
                          Clock 0, Inspected updating, Slept 7000000000,
                          Clock 7001000000, Inspected updating, Slept 7000000000,
                          Clock 14002000000, Inspected completed]\<rparr>)"
  by (simp add: waitForConvergence_def converge_7s_20s_def wait_start_def duration_of_def
        toy_service_env_def wait_loop.simps now_def inspect_def sleep_def updating_def completed_def
        UpdateStateCompleted_def UpdateStatePaused_def HasError_def)


subsection \<open>The claim\<close>



section \<open>The Docker Hub client\<close>

definition DefaultBaseURL :: string where
  "DefaultBaseURL = ''https://hub.docker.com/v2''"

record hub_Client =
  baseURL :: string
  token :: string
  username :: string

record hub_Config =
  Username :: string
  Password :: string
  Token :: string

text \<open>
  HTTP as the client sees it. \<open>http.Client.Do\<close> either fails or returns a response with
  its status code, status line and body. The JSON library is a parameter: \<open>json_Marshal\<close>
  encodes the login payload, \<open>Decode_token\<close> decodes a body into the struct with the one
  field \<open>token\<close> and \<open>Decode_team\<close> into a \<open>Team\<close> (of which the fields read by the
  provider are kept); \<open>NewRequest_error\<close> is the error of \<open>http.NewRequestWithContext\<close>
  for a method and a URL, if any; \<open>PathEscape\<close> is \<open>url.PathEscape\<close>. A run records the
  requests sent.
\<close>

record http_request =
  req_method :: string
  req_url :: string
  req_headers :: "(string \<times> string) list"
  req_body :: string

datatype http_result = DoError string | Response nat string string

record Team =
  team_Name :: string
  team_Description :: string
  team_MemberCount :: int

record 'h hub_env =
  json_Marshal :: "(string \<times> string) list \<Rightarrow> string + string"
  NewRequest_error :: "string \<Rightarrow> string \<Rightarrow> string option"
  Do :: "http_request \<Rightarrow> 'h \<Rightarrow> http_result \<times> 'h"
  Decode_token :: "string \<Rightarrow> string + string"
  Decode_team :: "string \<Rightarrow> string + Team"
  PathEscape :: "string \<Rightarrow> string"

record 'h hub_run =
  h_world :: 'h
  h_sent :: "http_request list"

definition send :: "'h hub_env \<Rightarrow> http_request \<Rightarrow> 'h hub_run \<Rightarrow> http_result \<times> 'h hub_run" where
  "send env req r =
     (case Do env req (h_world r) of
        (res, w) \<Rightarrow> (res, \<lparr>h_world = w, h_sent = h_sent r @ [req]\<rparr>))"

definition login_request :: "hub_Client \<Rightarrow> string \<Rightarrow> http_request" where
  "login_request c body =
     \<lparr>req_method = ''POST'', req_url = baseURL c @ ''/users/login'',
      req_headers = [(''Content-Type'', ''application/json'')], req_body = body\<rparr>"

text \<open>\<open>authenticate\<close> returns its error and the client as it has left it.\<close>

definition authenticate ::
  "'h hub_env \<Rightarrow> hub_Client \<Rightarrow> string \<Rightarrow> string \<Rightarrow> 'h hub_run \<Rightarrow>
   string option \<times> hub_Client \<times> 'h hub_run" where
  "authenticate env c usr pwd r =
     (case json_Marshal env [(''username'', usr), (''password'', pwd)] of
        Inl err \<Rightarrow> (Some err, c, r)
      | Inr body \<Rightarrow>
          (case NewRequest_error env ''POST'' (baseURL c @ ''/users/login'') of
             Some err \<Rightarrow> (Some err, c, r)
           | None \<Rightarrow>
               (case send env (login_request c body) r of
                  (DoError err, r1) \<Rightarrow> (Some err, c, r1)
                | (Response StatusCode Status respBody, r1) \<Rightarrow>
                    if StatusCode \<noteq> 200 then
                      (Some (''authentication failed: '' @ Status @ '' - '' @ respBody), c, r1)
                    else
                      (case Decode_token env respBody of
                         Inl err \<Rightarrow> (Some err, c, r1)
                       | Inr tok \<Rightarrow> (None, c\<lparr>token := tok, username := usr\<rparr>, r1)))))"

definition NewClient :: "'h hub_env \<Rightarrow> hub_Config \<Rightarrow> 'h hub_run \<Rightarrow> (string + hub_Client) \<times> 'h hub_run" where
  "NewClient env config r =
     (let client = \<lparr>baseURL = DefaultBaseURL, token = [], username = []\<rparr>
      in if Token config \<noteq> [] then
           (Inr (client\<lparr>token := Token config, username := Username config\<rparr>), r)
         else if Username config \<noteq> [] \<and> Password config \<noteq> [] then
           (case authenticate env client (Username config) (Password config) r of
              (Some err, c, r1) \<Rightarrow> (Inl (''authentication failed: '' @ err), r1)
            | (None, c, r1) \<Rightarrow> (Inr c, r1))
         else (Inr client, r))"

subsection \<open>An example Hub\<close>

text \<open>
  A Hub that answers every request with the same result. Its stand-in for the JSON
  library takes a body in braces for a document whose token is the text between them,
  and rejects every other body.
\<close>

definition toy_hub_env :: "http_result \<Rightarrow> unit hub_env" where
  "toy_hub_env answer =
     \<lparr>json_Marshal = (\<lambda>payload. Inr (concat (map (\<lambda>(k, v). k @ ''='' @ v @ '';'') payload))),
      NewRequest_error = (\<lambda>m u. None),
      Do = (\<lambda>req w. (answer, w)),
      Decode_token =
        (\<lambda>body. case body of
                  [] \<Rightarrow> Inl ''EOF''
                | c # rest \<Rightarrow>
                    if c = CHR ''{'' then Inr (takeWhile (\<lambda>x. x \<noteq> CHR ''}'') rest)
                    else Inl ''invalid character looking for beginning of value''),
      Decode_team =
        (\<lambda>body. case body of
                  [] \<Rightarrow> Inl ''EOF''
                | c # rest \<Rightarrow>
                    if c = CHR ''{'' then
                      Inr \<lparr>team_Name = takeWhile (\<lambda>x. x \<noteq> CHR ''}'') rest,
                           team_Description = [], team_MemberCount = 0\<rparr>
                    else Inl ''invalid character looking for beginning of value''),
      PathEscape = (\<lambda>s. s)\<rparr>"

definition hub_start :: "unit hub_run" where
  "hub_start = \<lparr>h_world = (), h_sent = []\<rparr>"

definition password_config :: hub_Config where
  "password_config = \<lparr>Username = ''alice'', Password = ''s3cret'', Token = []\<rparr>"

subsection \<open>The claim\<close>

lemma NewClient_token:
  "Token config \<noteq> [] \<Longrightarrow>
     NewClient env config r =
       (Inr \<lparr>baseURL = DefaultBaseURL, token = Token config, username = Username config\<rparr>, r)"
  by (simp add: NewClient_def)

lemma NewClient_login:
  assumes t: "Token config = []" and u: "Username config \<noteq> []" and p: "Password config \<noteq> []"
    and m: "json_Marshal env [(''username'', Username config), (''password'', Password config)] = Inr body"
    and n: "NewRequest_error env ''POST'' (DefaultBaseURL @ ''/users/login'') = None"
    and d: "Do env \<lparr>req_method = ''POST'', req_url = DefaultBaseURL @ ''/users/login'',
                   req_headers = [(''Content-Type'', ''application/json'')], req_body = body\<rparr> (h_world r) = (res, w)"
  shows "NewClient env config r =
     ((case res of
         DoError err \<Rightarrow> Inl (''authentication failed: '' @ err)
       | Response StatusCode Status respBody \<Rightarrow>
           if StatusCode \<noteq> 200 then
             Inl (''authentication failed: authentication failed: '' @ Status @ '' - '' @ respBody)
           else
             (case Decode_token env respBody of
                Inl err \<Rightarrow> Inl (''authentication failed: '' @ err)
              | Inr tok \<Rightarrow>
                  Inr \<lparr>baseURL = DefaultBaseURL, token = tok, username = Username config\<rparr>)),
      \<lparr>h_world = w,
        h_sent = h_sent r @
          [\<lparr>req_method = ''POST'', req_url = DefaultBaseURL @ ''/users/login'',
            req_headers = [(''Content-Type'', ''application/json'')], req_body = body\<rparr>]\<rparr>)"
  using assms
  by (simp add: NewClient_def authenticate_def send_def login_request_def
           split: http_result.splits sum.splits)

text \<open>
  Claim C5, as amended. With a non-empty \<open>Token\<close>, \<open>NewClient\<close> stores the token and the
  user name and returns the client without an error and without sending a request.
  With an empty \<open>Token\<close> and non-empty \<open>Username\<close> and \<open>Password\<close>, once the payload is
  encoded and the request built, it sends exactly one request, the POST of the
  credentials to \<open>/users/login\<close>, and returns an error if and only if sending fails,
  the status is not 200, or the body of the 200 response does not decode; otherwise
  the client holds the decoded token and the user name.
\<close>

theorem NewClient_authenticates:
  assumes m: "json_Marshal env [(''username'', Username config), (''password'', Password config)] = Inr body"
    and n: "NewRequest_error env ''POST'' (DefaultBaseURL @ ''/users/login'') = None"
    and d: "Do env \<lparr>req_method = ''POST'', req_url = DefaultBaseURL @ ''/users/login'',
                   req_headers = [(''Content-Type'', ''application/json'')], req_body = body\<rparr> (h_world r) = (res, w)"
  shows "(Token config \<noteq> [] \<longrightarrow>
            NewClient env config r =
              (Inr \<lparr>baseURL = DefaultBaseURL, token = Token config, username = Username config\<rparr>, r)) \<and>
         (Token config = [] \<and> Username config \<noteq> [] \<and> Password config \<noteq> [] \<longrightarrow>
            h_sent (snd (NewClient env config r)) =
              h_sent r @ [\<lparr>req_method = ''POST'', req_url = DefaultBaseURL @ ''/users/login'',
                           req_headers = [(''Content-Type'', ''application/json'')], req_body = body\<rparr>] \<and>
            (isl (fst (NewClient env config r)) \<longleftrightarrow>
               (case res of
                  DoError err \<Rightarrow> True
                | Response StatusCode Status respBody \<Rightarrow>
                    StatusCode \<noteq> 200 \<or> isl (Decode_token env respBody))) \<and>
            (\<forall>Status respBody tok.
               res = Response 200 Status respBody \<and> Decode_token env respBody = Inr tok \<longrightarrow>
               fst (NewClient env config r) =
                 Inr \<lparr>baseURL = DefaultBaseURL, token = tok, username = Username config\<rparr>))"
proof (intro conjI impI)
  assume "Token config \<noteq> []"
  then show "NewClient env config r =
      (Inr \<lparr>baseURL = DefaultBaseURL, token = Token config, username = Username config\<rparr>, r)"
    by (rule NewClient_token)
next
  assume a: "Token config = [] \<and> Username config \<noteq> [] \<and> Password config \<noteq> []"
  note e = NewClient_login[OF _ _ _ m n d]
  show "h_sent (snd (NewClient env config r)) =
      h_sent r @ [\<lparr>req_method = ''POST'', req_url = DefaultBaseURL @ ''/users/login'',
                   req_headers = [(''Content-Type'', ''application/json'')], req_body = body\<rparr>]"
    using a by (simp add: e)
next
  assume a: "Token config = [] \<and> Username config \<noteq> [] \<and> Password config \<noteq> []"
  note e = NewClient_login[OF _ _ _ m n d]
  show "isl (fst (NewClient env config r)) \<longleftrightarrow>
      (case res of
         DoError err \<Rightarrow> True
       | Response StatusCode Status respBody \<Rightarrow>
           StatusCode \<noteq> 200 \<or> isl (Decode_token env respBody))"
    using a by (simp add: e split: http_result.splits sum.splits)
next
  assume a: "Token config = [] \<and> Username config \<noteq> [] \<and> Password config \<noteq> []"
  note e = NewClient_login[OF _ _ _ m n d]
  show "\<forall>Status respBody tok.
      res = Response 200 Status respBody \<and> Decode_token env respBody = Inr tok \<longrightarrow>
      fst (NewClient env config r) =
        Inr \<lparr>baseURL = DefaultBaseURL, token = tok, username = Username config\<rparr>"
    using a by (simp add: e)
qed

theorem NewClient_authenticates_witness:
  "json_Marshal (toy_hub_env (Response 200 ''200 OK'' ''{jwt-abc}''))
      [(''username'', Username password_config), (''password'', Password password_config)] =
     Inr ''username=alice;password=s3cret;'' \<and>
   NewRequest_error (toy_hub_env (Response 200 ''200 OK'' ''{jwt-abc}'')) ''POST''
      (DefaultBaseURL @ ''/users/login'') = None \<and>
   Token password_config = [] \<and> Username password_config \<noteq> [] \<and> Password password_config \<noteq> [] \<and>
   req_url (hd (h_sent (snd (NewClient (toy_hub_env (Response 200 ''200 OK'' ''{jwt-abc}''))
      password_config hub_start)))) = ''https://hub.docker.com/v2/users/login'' \<and>
   fst (NewClient (toy_hub_env (Response 200 ''200 OK'' ''{jwt-abc}'')) password_config hub_start) =
     Inr \<lparr>baseURL = DefaultBaseURL, token = ''jwt-abc'', username = ''alice''\<rparr> \<and>
   Token (password_config\<lparr>Token := ''dckr_pat_1''\<rparr>) \<noteq> [] \<and>
   NewClient (toy_hub_env (Response 200 ''200 OK'' ''{jwt-abc}''))
      (password_config\<lparr>Token := ''dckr_pat_1''\<rparr>) hub_start =
     (Inr \<lparr>baseURL = DefaultBaseURL, token = ''dckr_pat_1'', username = ''alice''\<rparr>, hub_start)"
proof -
  let ?E = "toy_hub_env (Response 200 ''200 OK'' ''{jwt-abc}'')"
  let ?req = "\<lparr>req_method = ''POST'', req_url = DefaultBaseURL @ ''/users/login'',
               req_headers = [(''Content-Type'', ''application/json'')], req_body = ''username=alice;password=s3cret;''\<rparr>"
  have m: "json_Marshal ?E [(''username'', Username password_config), (''password'', Password password_config)] =
      Inr ''username=alice;password=s3cret;''"
    by (simp add: toy_hub_env_def password_config_def)
  have n: "NewRequest_error ?E ''POST'' (DefaultBaseURL @ ''/users/login'') = None"
    by (simp add: toy_hub_env_def)
  have d: "Do ?E ?req (h_world hub_start) = (Response 200 ''200 OK'' ''{jwt-abc}'', ())"
    by (simp add: toy_hub_env_def)
  have c: "Token password_config = []" "Username password_config \<noteq> []" "Password password_config \<noteq> []"
    by (simp_all add: password_config_def)
  have k: "Decode_token ?E ''{jwt-abc}'' = Inr ''jwt-abc''"
    by (simp add: toy_hub_env_def)
  note t = NewClient_authenticates[OF m n d]
  from t c have s: "h_sent (snd (NewClient ?E password_config hub_start)) = h_sent hub_start @ [?req]"
    by blast
  have 1: "req_url (hd (h_sent (snd (NewClient ?E password_config hub_start)))) =
      ''https://hub.docker.com/v2/users/login''"
    unfolding s by (simp add: hub_start_def DefaultBaseURL_def)
  from t c k have "fst (NewClient ?E password_config hub_start) =
      Inr \<lparr>baseURL = DefaultBaseURL, token = ''jwt-abc'', username = Username password_config\<rparr>"
    by blast
  then have 2: "fst (NewClient ?E password_config hub_start) =
      Inr \<lparr>baseURL = DefaultBaseURL, token = ''jwt-abc'', username = ''alice''\<rparr>"
    by (simp add: password_config_def)
  have m': "json_Marshal ?E [(''username'', Username (password_config\<lparr>Token := ''dckr_pat_1''\<rparr>)),
        (''password'', Password (password_config\<lparr>Token := ''dckr_pat_1''\<rparr>))] =
      Inr ''username=alice;password=s3cret;''"
    by (simp add: toy_hub_env_def password_config_def)
  have 3: "Token (password_config\<lparr>Token := ''dckr_pat_1''\<rparr>) \<noteq> []" by simp
  from NewClient_authenticates[OF m' n d] 3
  have "NewClient ?E (password_config\<lparr>Token := ''dckr_pat_1''\<rparr>) hub_start =
     (Inr \<lparr>baseURL = DefaultBaseURL, token = Token (password_config\<lparr>Token := ''dckr_pat_1''\<rparr>),
           username = Username (password_config\<lparr>Token := ''dckr_pat_1''\<rparr>)\<rparr>, hub_start)"
    by blast
  then have 4: "NewClient ?E (password_config\<lparr>Token := ''dckr_pat_1''\<rparr>) hub_start =
     (Inr \<lparr>baseURL = DefaultBaseURL, token = ''dckr_pat_1'', username = ''alice''\<rparr>, hub_start)"
    by (simp add: password_config_def)
  show ?thesis using m n c 1 2 3 4 by blast
qed

text \<open>
  The claim as it was stated fails where the login is answered with status 200 and a
  body that is not JSON: the request was sent and did not fail, the status is 200, and
  \<open>NewClient\<close> returns the decoder's error.
\<close>

theorem NewClient_undecodable_body_counterexample:
  "Token password_config = [] \<and> Username password_config \<noteq> [] \<and> Password password_config \<noteq> [] \<and>
   Do (toy_hub_env (Response 200 ''200 OK'' ''<html>Bad Gateway</html>''))
      \<lparr>req_method = ''POST'', req_url = DefaultBaseURL @ ''/users/login'',
        req_headers = [(''Content-Type'', ''application/json'')], req_body = ''username=alice;password=s3cret;''\<rparr>
      (h_world hub_start) = (Response 200 ''200 OK'' ''<html>Bad Gateway</html>'', ()) \<and>
   NewClient (toy_hub_env (Response 200 ''200 OK'' ''<html>Bad Gateway</html>'')) password_config hub_start =
     (Inl ''authentication failed: invalid character looking for beginning of value'',
      \<lparr>h_world = (),
        h_sent = [\<lparr>req_method = ''POST'', req_url = DefaultBaseURL @ ''/users/login'',
                   req_headers = [(''Content-Type'', ''application/json'')],
                   req_body = ''username=alice;password=s3cret;''\<rparr>]\<rparr>)"
  by (simp add: toy_hub_env_def password_config_def hub_start_def NewClient_def authenticate_def
        send_def login_request_def DefaultBaseURL_def)


section \<open>The provider: Configure\<close>

record ClientConfig =
  Host :: string
  TLSVerify :: bool
  CertPath :: string
  CACert :: string
  Cert :: string
  Key :: string

text \<open>Of \<open>docker.Client\<close> the configuration is kept; the SDK client it embeds is opaque.\<close>

record docker_Client =
  dc_config :: ClientConfig

record DockerProviderModel =
  Host_attr :: "string tfvalue"
  TLSVerify_attr :: "bool tfvalue"
  CertPath_attr :: "string tfvalue"
  CACert_attr :: "string tfvalue"
  Cert_attr :: "string tfvalue"
  Key_attr :: "string tfvalue"
  HubUsername :: "string tfvalue"
  HubPassword :: "string tfvalue"
  HubToken :: "string tfvalue"

text \<open>\<open>HubClient = None\<close> is the nil pointer.\<close>

record ProviderData =
  DockerClient :: docker_Client
  HubClient :: "hub_Client option"

record ConfigureRequest =
  Config_Get :: "Diagnostics \<times> DockerProviderModel"

record ConfigureResponse =
  cr_Diagnostics :: Diagnostics
  DataSourceData :: "ProviderData option"
  ResourceData :: "ProviderData option"

text \<open>
  Outside the provider: the process environment, and what building the Engine client
  depends on, each given by its error, if any: parsing the certificates given as
  content (\<open>createTLSConfigFromContent\<close>), loading them from a directory
  (\<open>tlsconfig.Client\<close>), the SDK's \<open>NewClientWithOpts\<close>, and the \<open>Ping\<close> of the daemon.
\<close>

record provider_env =
  Getenv :: "string \<Rightarrow> string"
  tls_from_content :: "string \<Rightarrow> string \<Rightarrow> string \<Rightarrow> string option"
  tls_from_path :: "string \<Rightarrow> string option"
  NewClientWithOpts_error :: "ClientConfig \<Rightarrow> string option"
  Ping_error :: "ClientConfig \<Rightarrow> string option"

definition createTLSHTTPClient :: "provider_env \<Rightarrow> ClientConfig \<Rightarrow> string option" where
  "createTLSHTTPClient env cfg =
     (if CACert cfg \<noteq> [] \<and> Cert cfg \<noteq> [] \<and> Key cfg \<noteq> [] then
        tls_from_content env (CACert cfg) (Cert cfg) (Key cfg)
      else if CertPath cfg \<noteq> [] then
        (case tls_from_path env (CertPath cfg) of
           Some err \<Rightarrow> Some (''failed to create TLS config from cert path: '' @ err)
         | None \<Rightarrow> None)
      else Some ''TLS verification enabled but no certificates provided'')"

definition docker_NewClient :: "provider_env \<Rightarrow> ClientConfig \<Rightarrow> string + docker_Client" where
  "docker_NewClient env cfg =
     (case (if TLSVerify cfg then createTLSHTTPClient env cfg else None) of
        Some err \<Rightarrow> Inl (''failed to create TLS HTTP client: '' @ err)
      | None \<Rightarrow>
          (case NewClientWithOpts_error env cfg of
             Some err \<Rightarrow> Inl (''failed to create Docker client: '' @ err)
           | None \<Rightarrow>
               (case Ping_error env cfg of
                  Some err \<Rightarrow>
                    Inl (''failed to connect to Docker daemon at '' @ Host cfg @ '': '' @ err)
                | None \<Rightarrow> Inr \<lparr>dc_config = cfg\<rparr>)))"

text \<open>
  \<open>v := os.Getenv(name); if !attr.IsNull() { v = attr.ValueString() }\<close>, which \<open>Configure\<close>
  writes out for the host, the certificate path and the three Hub settings.
\<close>

definition setting :: "provider_env \<Rightarrow> string \<Rightarrow> string tfvalue \<Rightarrow> string" where
  "setting env name attr = (if \<not> IsNull attr then ValueString attr else Getenv env name)"

definition content_of :: "string tfvalue \<Rightarrow> string" where
  "content_of attr = (if \<not> IsNull attr then ValueString attr else [])"

definition clientConfig :: "provider_env \<Rightarrow> DockerProviderModel \<Rightarrow> ClientConfig" where
  "clientConfig env m =
     \<lparr>Host = (if setting env ''DOCKER_HOST'' (Host_attr m) = [] then ''unix:///var/run/docker.sock''
              else setting env ''DOCKER_HOST'' (Host_attr m)),
      TLSVerify = (if \<not> IsNull (TLSVerify_attr m) then ValueBool (TLSVerify_attr m)
                   else Getenv env ''DOCKER_TLS_VERIFY'' = ''1''),
      CertPath = setting env ''DOCKER_CERT_PATH'' (CertPath_attr m),
      CACert = content_of (CACert_attr m),
      Cert = content_of (Cert_attr m),
      Key = content_of (Key_attr m)\<rparr>"

definition hubConfig :: "provider_env \<Rightarrow> DockerProviderModel \<Rightarrow> hub_Config" where
  "hubConfig env m =
     \<lparr>Username = setting env ''DOCKER_HUB_USERNAME'' (HubUsername m),
      Password = setting env ''DOCKER_HUB_PASSWORD'' (HubPassword m),
      Token = setting env ''DOCKER_HUB_TOKEN'' (HubToken m)\<rparr>"

text \<open>
  \<open>AddAttributeError\<close> adds an error diagnostic that also names an attribute path; the
  path is not kept.
\<close>

definition Configure ::
  "provider_env \<Rightarrow> 'h hub_env \<Rightarrow> ConfigureRequest \<Rightarrow> ConfigureResponse \<Rightarrow> 'h hub_run \<Rightarrow>
   ConfigureResponse \<times> 'h hub_run" where
  "Configure env henv req resp r =
     (let (diags, m) = Config_Get req;
          resp1 = resp\<lparr>cr_Diagnostics := Append (cr_Diagnostics resp) diags\<rparr>
      in if HasError (cr_Diagnostics resp1) then (resp1, r)
         else
           (let cfg = clientConfig env m;
                hasCertPath = (CertPath cfg \<noteq> []);
                hasCertContent = (CACert cfg \<noteq> [] \<and> Cert cfg \<noteq> [] \<and> Key cfg \<noteq> [])
            in if TLSVerify cfg \<and> \<not> hasCertPath \<and> \<not> hasCertContent then
                 (resp1\<lparr>cr_Diagnostics :=
                    AddError ''Missing TLS Configuration''
                      ''When tls_verify is enabled, you must provide either cert_path or all of ca_cert, cert, and key.''
                      (cr_Diagnostics resp1)\<rparr>, r)
               else
                 (case docker_NewClient env cfg of
                    Inl err \<Rightarrow>
                      (resp1\<lparr>cr_Diagnostics :=
                         AddError ''Unable to Create Docker Client''
                           (''An unexpected error occurred when creating the Docker client. '' @
                            ''If the error is not clear, please contact the provider developers.'' @
                            [CHR 0x0A, CHR 0x0A] @ ''Docker Client Error: '' @ err)
                           (cr_Diagnostics resp1)\<rparr>, r)
                  | Inr dockerClient \<Rightarrow>
                      (let hc = hubConfig env m;
                           (hubClient, diagnostics2, r2) =
                             (if Username hc \<noteq> [] \<and> (Password hc \<noteq> [] \<or> Token hc \<noteq> []) then
                                (case NewClient henv hc r of
                                   (Inl err, r1) \<Rightarrow>
                                     (None,
                                      AddWarning ''Docker Hub Authentication Failed''
                                        (''Failed to authenticate with Docker Hub: '' @ err @
                                         [CHR 0x0A] @ ''Docker Hub resources will not be available.'')
                                        (cr_Diagnostics resp1),
                                      r1)
                                 | (Inr c, r1) \<Rightarrow> (Some c, cr_Diagnostics resp1, r1))
                              else (None, cr_Diagnostics resp1, r));
                           providerData = \<lparr>DockerClient = dockerClient, HubClient = hubClient\<rparr>
                       in (resp1\<lparr>cr_Diagnostics := diagnostics2,
                                 DataSourceData := Some providerData,
                                 ResourceData := Some providerData\<rparr>, r2)))))"

lemma docker_NewClient_certificates:
  assumes "docker_NewClient env cfg = Inr dockerClient"
  shows "\<not> (TLSVerify cfg \<and> \<not> CertPath cfg \<noteq> [] \<and> \<not> (CACert cfg \<noteq> [] \<and> Cert cfg \<noteq> [] \<and> Key cfg \<noteq> []))"
proof
  assume a: "TLSVerify cfg \<and> \<not> CertPath cfg \<noteq> [] \<and> \<not> (CACert cfg \<noteq> [] \<and> Cert cfg \<noteq> [] \<and> Key cfg \<noteq> [])"
  then have "createTLSHTTPClient env cfg = Some ''TLS verification enabled but no certificates provided''"
    by (auto simp: createTLSHTTPClient_def)
  then have "docker_NewClient env cfg =
      Inl (''failed to create TLS HTTP client: '' @ ''TLS verification enabled but no certificates provided'')"
    using a by (simp add: docker_NewClient_def)
  then show False using assms by simp
qed

lemma Configure_after_docker_client:
  assumes ok: "\<not> HasError (Append (cr_Diagnostics resp) (fst (Config_Get req)))"
    and dc: "docker_NewClient env (clientConfig env (snd (Config_Get req))) = Inr dockerClient"
  shows "Configure env henv req resp r =
     (let hc = hubConfig env (snd (Config_Get req));
          D1 = Append (cr_Diagnostics resp) (fst (Config_Get req))
      in if Username hc \<noteq> [] \<and> (Password hc \<noteq> [] \<or> Token hc \<noteq> []) then
           (case NewClient henv hc r of
              (Inl err, r1) \<Rightarrow>
                (resp\<lparr>cr_Diagnostics :=
                        AddWarning ''Docker Hub Authentication Failed''
                          (''Failed to authenticate with Docker Hub: '' @ err @
                           [CHR 0x0A] @ ''Docker Hub resources will not be available.'') D1,
                      DataSourceData := Some \<lparr>DockerClient = dockerClient, HubClient = None\<rparr>,
                      ResourceData := Some \<lparr>DockerClient = dockerClient, HubClient = None\<rparr>\<rparr>, r1)
            | (Inr c, r1) \<Rightarrow>
                (resp\<lparr>cr_Diagnostics := D1,
                      DataSourceData := Some \<lparr>DockerClient = dockerClient, HubClient = Some c\<rparr>,
                      ResourceData := Some \<lparr>DockerClient = dockerClient, HubClient = Some c\<rparr>\<rparr>, r1))
         else
           (resp\<lparr>cr_Diagnostics := D1,
                 DataSourceData := Some \<lparr>DockerClient = dockerClient, HubClient = None\<rparr>,
                 ResourceData := Some \<lparr>DockerClient = dockerClient, HubClient = None\<rparr>\<rparr>, r))"
proof -
  obtain diags m where g: "Config_Get req = (diags, m)" by (cases "Config_Get req")
  have ok': "\<not> HasError (Append (cr_Diagnostics resp) diags)" using ok g by simp
  have dc': "docker_NewClient env (clientConfig env m) = Inr dockerClient" using dc g by simp
  note tls = docker_NewClient_certificates[OF dc']
  show ?thesis
  proof (cases "Username (hubConfig env m) \<noteq> [] \<and>
      (Password (hubConfig env m) \<noteq> [] \<or> Token (hubConfig env m) \<noteq> [])")
    case False
    then show ?thesis
      using g ok' dc' tls by (auto simp: Configure_def Let_def)
  next
    case True
    obtain res r1 where n: "NewClient henv (hubConfig env m) r = (res, r1)"
      by (cases "NewClient henv (hubConfig env m) r")
    show ?thesis
    proof (cases res)
      case (Inl err)
      then show ?thesis using g ok' dc' tls True n by (auto simp: Configure_def Let_def)
    next
      case (Inr c)
      then show ?thesis using g ok' dc' tls True n by (auto simp: Configure_def Let_def)
    qed
  qed
qed

subsection \<open>The claim\<close>

text \<open>
  Claim C10. Let \<open>Configure\<close> get as far as the Hub settings: the configuration was
  decoded without an error and the Engine client was built. It calls
  \<open>dockerhub.NewClient\<close> only when the Hub user name is non-empty and the Hub password
  or the Hub token is: otherwise it sends no request and publishes provider data with
  the Engine client and no Hub client. When \<open>NewClient\<close> fails, \<open>Configure\<close> adds the
  `Docker Hub Authentication Failed' warning and nothing else, the diagnostics hold no
  error, and both \<open>DataSourceData\<close> and \<open>ResourceData\<close> are the provider data whose
  \<open>HubClient\<close> is nil and whose \<open>DockerClient\<close> is the Engine client.
\<close>

theorem Configure_hub_failure_is_a_warning:
  assumes ok: "\<not> HasError (Append (cr_Diagnostics resp) (fst (Config_Get req)))"
    and dc: "docker_NewClient env (clientConfig env (snd (Config_Get req))) = Inr dockerClient"
    and hc: "hc = hubConfig env (snd (Config_Get req))"
    and d1: "D1 = Append (cr_Diagnostics resp) (fst (Config_Get req))"
  shows "(\<not> (Username hc \<noteq> [] \<and> (Password hc \<noteq> [] \<or> Token hc \<noteq> [])) \<longrightarrow>
            Configure env henv req resp r =
              (resp\<lparr>cr_Diagnostics := D1,
                    DataSourceData := Some \<lparr>DockerClient = dockerClient, HubClient = None\<rparr>,
                    ResourceData := Some \<lparr>DockerClient = dockerClient, HubClient = None\<rparr>\<rparr>, r)) \<and>
         (Username hc \<noteq> [] \<and> (Password hc \<noteq> [] \<or> Token hc \<noteq> []) \<longrightarrow>
            (\<forall>err r1. NewClient henv hc r = (Inl err, r1) \<longrightarrow>
               Configure env henv req resp r =
                 (resp\<lparr>cr_Diagnostics :=
                         AddWarning ''Docker Hub Authentication Failed''
                           (''Failed to authenticate with Docker Hub: '' @ err @
                            [CHR 0x0A] @ ''Docker Hub resources will not be available.'') D1,
                       DataSourceData := Some \<lparr>DockerClient = dockerClient, HubClient = None\<rparr>,
                       ResourceData := Some \<lparr>DockerClient = dockerClient, HubClient = None\<rparr>\<rparr>, r1) \<and>
               \<not> HasError (cr_Diagnostics (fst (Configure env henv req resp r)))))"
proof (intro conjI impI allI)
  assume "\<not> (Username hc \<noteq> [] \<and> (Password hc \<noteq> [] \<or> Token hc \<noteq> []))"
  then show "Configure env henv req resp r =
      (resp\<lparr>cr_Diagnostics := D1,
            DataSourceData := Some \<lparr>DockerClient = dockerClient, HubClient = None\<rparr>,
            ResourceData := Some \<lparr>DockerClient = dockerClient, HubClient = None\<rparr>\<rparr>, r)"
    unfolding Configure_after_docker_client[OF ok dc] hc d1 by (auto simp: Let_def)
next
  fix err r1
  assume w: "Username hc \<noteq> [] \<and> (Password hc \<noteq> [] \<or> Token hc \<noteq> [])"
    and n: "NewClient henv hc r = (Inl err, r1)"
  show e: "Configure env henv req resp r =
      (resp\<lparr>cr_Diagnostics :=
              AddWarning ''Docker Hub Authentication Failed''
                (''Failed to authenticate with Docker Hub: '' @ err @
                 [CHR 0x0A] @ ''Docker Hub resources will not be available.'') D1,
            DataSourceData := Some \<lparr>DockerClient = dockerClient, HubClient = None\<rparr>,
            ResourceData := Some \<lparr>DockerClient = dockerClient, HubClient = None\<rparr>\<rparr>, r1)"
    using w n unfolding Configure_after_docker_client[OF ok dc] hc d1 by (auto simp: Let_def)
  show "\<not> HasError (cr_Diagnostics (fst (Configure env henv req resp r)))"
    unfolding e using ok d1 by (simp add: HasError_AddWarning)
qed

subsection \<open>An example configuration\<close>

definition toy_provider_env :: provider_env where
  "toy_provider_env =
     \<lparr>Getenv = (\<lambda>name. []),
      tls_from_content = (\<lambda>ca cert key. None),
      tls_from_path = (\<lambda>path. None),
      NewClientWithOpts_error = (\<lambda>cfg. None),
      Ping_error = (\<lambda>cfg. None)\<rparr>"

definition hub_model :: DockerProviderModel where
  "hub_model =
     \<lparr>Host_attr = Null, TLSVerify_attr = Null, CertPath_attr = Null, CACert_attr = Null,
      Cert_attr = Null, Key_attr = Null, HubUsername = Known ''alice'',
      HubPassword = Known ''wrong'', HubToken = Null\<rparr>"

definition local_config :: ClientConfig where
  "local_config =
     \<lparr>Host = ''unix:///var/run/docker.sock'', TLSVerify = False, CertPath = [], CACert = [],
      Cert = [], Key = []\<rparr>"

definition configure_start :: ConfigureResponse where
  "configure_start = \<lparr>cr_Diagnostics = [], DataSourceData = None, ResourceData = None\<rparr>"

definition unauthorized :: http_result where
  "unauthorized = Response 401 ''401 Unauthorized'' ''{Incorrect authentication credentials}''"

theorem Configure_hub_failure_is_a_warning_witness:
  "\<not> HasError (Append (cr_Diagnostics configure_start) (fst (Config_Get \<lparr>Config_Get = ([], hub_model)\<rparr>))) \<and>
   docker_NewClient toy_provider_env
      (clientConfig toy_provider_env (snd (Config_Get \<lparr>Config_Get = ([], hub_model)\<rparr>))) =
     Inr \<lparr>dc_config = local_config\<rparr> \<and>
   hubConfig toy_provider_env (snd (Config_Get \<lparr>Config_Get = ([], hub_model)\<rparr>)) =
     \<lparr>Username = ''alice'', Password = ''wrong'', Token = []\<rparr> \<and>
   isl (fst (NewClient (toy_hub_env unauthorized) \<lparr>Username = ''alice'', Password = ''wrong'', Token = []\<rparr>
      hub_start)) \<and>
   map Severity (cr_Diagnostics (fst (Configure toy_provider_env (toy_hub_env unauthorized)
      \<lparr>Config_Get = ([], hub_model)\<rparr> configure_start hub_start))) = [SeverityWarning] \<and>
   \<not> HasError (cr_Diagnostics (fst (Configure toy_provider_env (toy_hub_env unauthorized)
      \<lparr>Config_Get = ([], hub_model)\<rparr> configure_start hub_start))) \<and>
   ResourceData (fst (Configure toy_provider_env (toy_hub_env unauthorized)
      \<lparr>Config_Get = ([], hub_model)\<rparr> configure_start hub_start)) =
     Some \<lparr>DockerClient = \<lparr>dc_config = local_config\<rparr>, HubClient = None\<rparr>"
proof -
  let ?req = "\<lparr>Config_Get = ([], hub_model)\<rparr>"
  let ?hc = "\<lparr>Username = ''alice'', Password = ''wrong'', Token = []\<rparr>"
  let ?C = "Configure toy_provider_env (toy_hub_env unauthorized) ?req configure_start hub_start"
  have ok: "\<not> HasError (Append (cr_Diagnostics configure_start) (fst (Config_Get ?req)))"
    by (simp add: configure_start_def HasError_def)
  have dc: "docker_NewClient toy_provider_env (clientConfig toy_provider_env (snd (Config_Get ?req))) =
      Inr \<lparr>dc_config = local_config\<rparr>"
    by (simp add: docker_NewClient_def clientConfig_def toy_provider_env_def hub_model_def
          setting_def content_of_def local_config_def)
  have hc: "?hc = hubConfig toy_provider_env (snd (Config_Get ?req))"
    by (simp add: hubConfig_def toy_provider_env_def hub_model_def setting_def)
  have w: "Username ?hc \<noteq> [] \<and> (Password ?hc \<noteq> [] \<or> Token ?hc \<noteq> [])" by simp
  obtain res r1 where n: "NewClient (toy_hub_env unauthorized) ?hc hub_start = (res, r1)"
    by (cases "NewClient (toy_hub_env unauthorized) ?hc hub_start")
  have "isl (fst (NewClient (toy_hub_env unauthorized) ?hc hub_start))"
    by (simp add: NewClient_def authenticate_def send_def login_request_def toy_hub_env_def
          unauthorized_def hub_start_def)
  then have i: "isl res" using n by simp
  then obtain err where e: "res = Inl err" by (cases res) simp_all
  note t = Configure_hub_failure_is_a_warning[OF ok dc hc refl,
      of "toy_hub_env unauthorized" hub_start]
  from t w n e have c: "?C =
      (configure_start\<lparr>cr_Diagnostics :=
              AddWarning ''Docker Hub Authentication Failed''
                (''Failed to authenticate with Docker Hub: '' @ err @
                 [CHR 0x0A] @ ''Docker Hub resources will not be available.'')
                (Append (cr_Diagnostics configure_start) (fst (Config_Get ?req))),
            DataSourceData := Some \<lparr>DockerClient = \<lparr>dc_config = local_config\<rparr>, HubClient = None\<rparr>,
            ResourceData := Some \<lparr>DockerClient = \<lparr>dc_config = local_config\<rparr>, HubClient = None\<rparr>\<rparr>, r1)"
    and h: "\<not> HasError (cr_Diagnostics (fst ?C))"
    by blast+
  have 1: "map Severity (cr_Diagnostics (fst ?C)) = [SeverityWarning]"
    unfolding c by (simp add: configure_start_def AddWarning_def)
  have 2: "ResourceData (fst ?C) = Some \<lparr>DockerClient = \<lparr>dc_config = local_config\<rparr>, HubClient = None\<rparr>"
    unfolding c by simp
  show ?thesis using ok dc hc[symmetric] i n h 1 2 by simp
qed


section \<open>Read and resources that are gone\<close>





subsection \<open>NetworkResource.Read\<close>





subsection \<open>OrgTeamResource.Read\<close>






subsection \<open>RegistryImageResource.Read\<close>






subsection \<open>Example states and an Engine that fails\<close>






subsection \<open>The claim\<close>








section \<open>Round trips within one lifecycle call\<close>


















subsection \<open>The claim\<close>





end
